theory Spec2Isabelle
  imports Complex_Main
begin

section \<open>JavaScript values used by the components\<close>

subsection \<open>Strings\<close>

text \<open>
  A JavaScript string is modelled as a \<^typ>\<open>string\<close>, one \<^typ>\<open>char\<close> per code unit
  (code units above 255 are outside the model). \<open>isWhiteSpace\<close> is the set that
  \<^verbatim>\<open>String.prototype.trim\<close> and \<^verbatim>\<open>parseInt\<close> strip (WhiteSpace and LineTerminator),
  restricted to that range: TAB, LF, VT, FF, CR, SP and NBSP.
\<close>

definition isWhiteSpace :: "char \<Rightarrow> bool" where
  "isWhiteSpace c = (of_char c \<in> {9, 10, 11, 12, 13, 32, 160 :: nat})"

definition js_trim :: "string \<Rightarrow> string" where
  "js_trim s = rev (dropWhile isWhiteSpace (rev (dropWhile isWhiteSpace s)))"

text \<open>
  The relational operator \<^verbatim>\<open><\<close> on two strings: a proper prefix is smaller, otherwise
  the first differing code unit decides.
\<close>

fun js_str_lt :: "string \<Rightarrow> string \<Rightarrow> bool" where
  "js_str_lt [] [] = False"
| "js_str_lt [] (y # ys) = True"
| "js_str_lt (x # xs) [] = False"
| "js_str_lt (x # xs) (y # ys) =
     (if x = y then js_str_lt xs ys else (of_char x :: nat) < of_char y)"

subsection \<open>Numbers\<close>

text \<open>
  A JavaScript number is an IEEE 754 binary64 value. Every finite double is a rational,
  so a number is \<open>NaN\<close>, an infinity or \<open>Finite x\<close> with \<open>x\<close> rational; the two zeros are
  identified (nothing in these components tells them apart). \<open>to_number\<close> rounds an
  exact rational result to the nearest double, ties to even: 53 significant bits,
  smallest quantum \<open>2^-1074\<close>, overflow to an infinity from \<open>2^1024\<close> on. Not every
  \<open>Finite x\<close> is a double; the operators below round their results, and what holds of
  every \<open>Finite x\<close> holds of the doubles.
\<close>

datatype number = NaN | PosInf | NegInf | Finite rat

function bit_length :: "int \<Rightarrow> int" where
  "bit_length n = (if n \<le> 0 then 0 else 1 + bit_length (n div 2))"
  by pat_completeness auto
termination
  by (relation "measure nat") auto

declare bit_length.simps [simp del]

definition pow2 :: "int \<Rightarrow> rat" where
  "pow2 e = (if 0 \<le> e then 2 ^ nat e else 1 / 2 ^ nat (- e))"

text \<open>\<open>binary_exponent x\<close> is \<open>\<lfloor>log\<^sub>2 x\<rfloor>\<close> for a positive rational \<open>x\<close>.\<close>

definition binary_exponent :: "rat \<Rightarrow> int" where
  "binary_exponent x =
     (if 1 \<le> x then bit_length \<lfloor>x\<rfloor> - 1
      else - bit_length (\<lceil>1 / x\<rceil> - 1))"

definition round_half_even :: "rat \<Rightarrow> int" where
  "round_half_even y =
     (let f = \<lfloor>y\<rfloor>; r = y - of_int f
      in if r < 1 / 2 then f
         else if 1 / 2 < r then f + 1
         else if even f then f else f + 1)"

definition to_number :: "rat \<Rightarrow> number" where
  "to_number x =
     (if x = 0 then Finite 0
      else
        let q = max (binary_exponent \<bar>x\<bar>) (- 1022) - 52;
            r = of_int (round_half_even (x / pow2 q)) * pow2 q
        in if r = 0 then Finite 0
           else if binary_exponent \<bar>r\<bar> < 1024 then Finite r
           else if 0 < x then PosInf else NegInf)"

definition is_negative :: "number \<Rightarrow> bool" where
  "is_negative a = (case a of NegInf \<Rightarrow> True | Finite x \<Rightarrow> x < 0 | _ \<Rightarrow> False)"

text \<open>The operators \<^verbatim>\<open>*\<close> and \<^verbatim>\<open>/\<close> on numbers.\<close>

fun js_mul :: "number \<Rightarrow> number \<Rightarrow> number" where
  "js_mul (Finite x) (Finite y) = to_number (x * y)"
| "js_mul NaN b = NaN"
| "js_mul a NaN = NaN"
| "js_mul a b =
     (if a = Finite 0 \<or> b = Finite 0 then NaN
      else if is_negative a = is_negative b then PosInf else NegInf)"

fun js_div :: "number \<Rightarrow> number \<Rightarrow> number" where
  "js_div (Finite x) (Finite y) =
     (if y = 0 then (if x = 0 then NaN else if 0 < x then PosInf else NegInf)
      else to_number (x / y))"
| "js_div NaN b = NaN"
| "js_div a NaN = NaN"
| "js_div (Finite x) b = Finite 0"
| "js_div a (Finite y) = (if is_negative a = (y < 0) then PosInf else NegInf)"
| "js_div a b = NaN"

text \<open>The relational operator \<^verbatim>\<open><\<close> on two numbers: false when either is \<open>NaN\<close>.\<close>

fun js_lt :: "number \<Rightarrow> number \<Rightarrow> bool" where
  "js_lt (Finite x) (Finite y) = (x < y)"
| "js_lt NaN b = False"
| "js_lt a NaN = False"
| "js_lt a PosInf = (a \<noteq> PosInf)"
| "js_lt NegInf b = (b \<noteq> NegInf)"
| "js_lt a b = False"

text \<open>Truthiness of a number in a condition: \<open>0\<close> and \<open>NaN\<close> are falsy.\<close>

definition truthy :: "number \<Rightarrow> bool" where
  "truthy a = (a \<noteq> NaN \<and> a \<noteq> Finite 0)"

subsection \<open>Integers as strings: \<^verbatim>\<open>toString\<close> and \<^verbatim>\<open>parseInt\<close>\<close>

text \<open>
  The database columns \<^verbatim>\<open>appointmentPriceInCents\<close>, \<^verbatim>\<open>availableFromWeekDay\<close> and
  \<^verbatim>\<open>availableToWeekDay\<close> and the dashboard's counts are integers, modelled as
  \<^typ>\<open>int\<close>; \<open>number_of_int\<close> is the number such a value is in JavaScript. For an integer,
  \<^verbatim>\<open>Number.prototype.toString\<close> gives the decimal numeral, with a minus sign when
  negative (below \<open>10\<^sup>2\<^sup>1\<close> in magnitude, which every such column value and count is).
\<close>

definition number_of_int :: "int \<Rightarrow> number" where
  "number_of_int n = to_number (of_int n)"

definition digit_char :: "nat \<Rightarrow> char" where
  "digit_char d = char_of (48 + d)"

fun digits :: "nat \<Rightarrow> string" where
  "digits n = (if n < 10 then [digit_char n] else digits (n div 10) @ [digit_char (n mod 10)])"

declare digits.simps [simp del]

definition toString :: "int \<Rightarrow> string" where
  "toString n = (if n < 0 then CHR ''-'' # digits (nat (- n)) else digits (nat n))"

text \<open>
  \<^verbatim>\<open>parseInt(string)\<close> with no radix: leading white space is skipped, a sign is read, a
  \<^verbatim>\<open>0x\<close> prefix switches to radix 16, the longest prefix of digits is read and the rest
  ignored; no digit at all gives \<open>NaN\<close>.
\<close>

definition digit_value :: "char \<Rightarrow> nat option" where
  "digit_value c =
     (let k = (of_char c :: nat)
      in if 48 \<le> k \<and> k \<le> 57 then Some (k - 48)
         else if 97 \<le> k \<and> k \<le> 102 then Some (k - 87)
         else if 65 \<le> k \<and> k \<le> 70 then Some (k - 55)
         else None)"

definition is_digit :: "nat \<Rightarrow> char \<Rightarrow> bool" where
  "is_digit R c = (case digit_value c of None \<Rightarrow> False | Some d \<Rightarrow> d < R)"

definition digits_value :: "nat \<Rightarrow> string \<Rightarrow> nat" where
  "digits_value R Z =
     foldl (\<lambda>a c. a * R + (case digit_value c of Some d \<Rightarrow> d | None \<Rightarrow> 0)) 0 Z"

definition parseInt :: "string \<Rightarrow> number" where
  "parseInt s =
     (let S = dropWhile isWhiteSpace s;
          sign = (if take 1 S = ''-'' then - 1 else 1 :: int);
          S1 = (if take 1 S = ''+'' \<or> take 1 S = ''-'' then drop 1 S else S);
          hex = (take 2 S1 = ''0x'' \<or> take 2 S1 = ''0X'');
          R = (if hex then 16 else 10);
          Z = takeWhile (is_digit R) (if hex then drop 2 S1 else S1)
      in if Z = [] then NaN else number_of_int (sign * int (digits_value R Z)))"

section \<open>The upsert-doctor form\<close>

text \<open>
  The component is built on three libraries that are not part of the repository: the
  schema is a zod schema, the form is a react-hook-form form with the zod resolver, and
  the reset runs in a React effect. What the definitions below say about them (which
  checks abort a parse, when a refinement runs, which issue a field shows, when an
  effect runs) is the documented behaviour of zod 3, react-hook-form and React.
\<close>

subsection \<open>Form values and validation issues\<close>

text \<open>
  The form's values, as \<^verbatim>\<open>formSchema\<close> lists them. \<open>'p\<close> is what the price field holds:
  a \<^typ>\<open>number option\<close> in the form's state, where \<open>None\<close> is \<^verbatim>\<open>undefined\<close> (the price
  control stores \<^verbatim>\<open>value.floatValue\<close>, which is \<^verbatim>\<open>undefined\<close> for an emptied input), and
  a \<^typ>\<open>number\<close> in a validated value.
\<close>

record 'p formValues =
  name :: string
  specialty :: string
  appointmentPrice :: 'p
  availableFromWeekDay :: string
  availableToWeekDay :: string
  availableFromTime :: string
  availableToTime :: string

text \<open>
  A validation issue: its code, the path of the value it is attached to (the empty
  path is the whole object, a top-level error) and its message.
\<close>

record issue =
  code :: string
  path :: "string list"
  message :: string

text \<open>
  \<^verbatim>\<open>z.string().min(n, { message })\<close> on a string: one \<^verbatim>\<open>too_small\<close> issue when the string
  is shorter than \<open>n\<close>. The check does not abort the parse.
\<close>

definition string_min :: "string list \<Rightarrow> nat \<Rightarrow> string \<Rightarrow> string \<Rightarrow> issue list" where
  "string_min p n msg s =
     (if length s < n then [\<lparr>code = ''too_small'', path = p, message = msg\<rparr>] else [])"

text \<open>
  \<^verbatim>\<open>z.number().min(n, { message })\<close>: a value that is not a number (\<^verbatim>\<open>undefined\<close>, or
  \<open>NaN\<close>) is an \<^verbatim>\<open>invalid_type\<close> issue with the library's own message and aborts the
  parse (no value); a number below \<open>n\<close> is a \<^verbatim>\<open>too_small\<close> issue. An infinity is a
  number to this check.
\<close>

definition number_min ::
  "string list \<Rightarrow> number \<Rightarrow> string \<Rightarrow> number option \<Rightarrow> number option \<times> issue list" where
  "number_min p n msg v =
     (case v of
        None \<Rightarrow> (None, [\<lparr>code = ''invalid_type'', path = p, message = ''Required''\<rparr>])
      | Some NaN \<Rightarrow>
          (None, [\<lparr>code = ''invalid_type'', path = p,
                   message = ''Expected number, received nan''\<rparr>])
      | Some x \<Rightarrow>
          (Some x,
           if js_lt x n then [\<lparr>code = ''too_small'', path = p, message = msg\<rparr>] else []))"

text \<open>
  \<^verbatim>\<open>formSchema\<close>: the object's fields are parsed in the order of the shape, \<^verbatim>\<open>name\<close> and
  \<^verbatim>\<open>specialty\<close> trimmed first; the \<^verbatim>\<open>refine\<close> predicate runs on the parsed object unless
  the object's parse was aborted, and its issue goes to the path \<^verbatim>\<open>["availableToTime"]\<close>.
  The result is the parsed value when there is no issue, the issues otherwise.
\<close>

definition formSchema :: "number option formValues \<Rightarrow> issue list + number formValues" where
  "formSchema data =
     (let name' = js_trim (name data);
          specialty' = js_trim (specialty data);
          (price, price_issues) =
            number_min [''appointmentPrice''] (Finite 1) ''Appointment price is required''
              (appointmentPrice data);
          issues =
            string_min [''name''] 1 ''Doctor name is required'' name' @
            string_min [''specialty''] 1 ''Specialty is required'' specialty' @
            price_issues @
            string_min [''availableFromTime''] 1 ''Start time is required''
              (availableFromTime data) @
            string_min [''availableToTime''] 1 ''End time is required''
              (availableToTime data)
      in case price of
           None \<Rightarrow> Inl issues
         | Some price' \<Rightarrow>
             let issues' = issues @
                   (if js_str_lt (availableFromTime data) (availableToTime data) then []
                    else [\<lparr>code = ''custom'', path = [''availableToTime''],
                           message = ''Start time must be before end time''\<rparr>])
             in if issues' = [] then
                  Inr \<lparr>name = name', specialty = specialty', appointmentPrice = price',
                       availableFromWeekDay = availableFromWeekDay data,
                       availableToWeekDay = availableToWeekDay data,
                       availableFromTime = availableFromTime data,
                       availableToTime = availableToTime data\<rparr>
                else Inl issues')"

text \<open>
  \<^verbatim>\<open>zodResolver\<close> turns the issues into the form's field errors, keyed by the path joined
  with dots; the first issue of a path is the one kept.
\<close>

fun join_path :: "string list \<Rightarrow> string" where
  "join_path [] = []"
| "join_path [k] = k"
| "join_path (k # ks) = k @ ''.'' @ join_path ks"

fun field_errors :: "issue list \<Rightarrow> (string \<rightharpoonup> string)" where
  "field_errors [] = Map.empty"
| "field_errors (i # is) = (field_errors is)(join_path (path i) \<mapsto> message i)"

subsection \<open>The component\<close>

text \<open>The columns of a row of \<^verbatim>\<open>doctorsTable\<close> that the component reads.\<close>

record doctor =
  doctor_id :: string
  doctor_name :: string
  doctor_specialty :: string
  doctor_appointmentPriceInCents :: int
  doctor_availableFromWeekDay :: int
  doctor_availableToWeekDay :: int
  doctor_availableFromTime :: string
  doctor_availableToTime :: string

text \<open>
  The argument of the \<^verbatim>\<open>upsertDoctor\<close> action: the validated values, spread, and the
  four keys \<^verbatim>\<open>handleSubmit\<close> sets.
\<close>

record upsertInput =
  upsert_name :: string
  upsert_specialty :: string
  upsert_appointmentPrice :: number
  upsert_availableFromTime :: string
  upsert_availableToTime :: string
  upsert_id :: "string option"
  upsert_availableFromWeekDay :: number
  upsert_availableToWeekDay :: number
  upsert_appointmentPriceInCents :: number

datatype remote_call = UpsertDoctor upsertInput | DeleteDoctor string

text \<open>\<^verbatim>\<open>handleDeleteDoctorClick\<close>: the remote calls it issues.\<close>

definition handleDeleteDoctorClick :: "doctor option \<Rightarrow> remote_call list" where
  "handleDeleteDoctorClick doctor =
     (case doctor of None \<Rightarrow> [] | Some d \<Rightarrow> [DeleteDoctor (doctor_id d)])"

text \<open>The \<^verbatim>\<open>defaultValues\<close> given to \<^verbatim>\<open>useForm\<close>.\<close>

definition defaultValues :: "doctor option \<Rightarrow> number option formValues" where
  "defaultValues doctor =
     \<lparr>name = (case doctor of Some d \<Rightarrow> doctor_name d | None \<Rightarrow> []),
      specialty = (case doctor of Some d \<Rightarrow> doctor_specialty d | None \<Rightarrow> []),
      appointmentPrice =
        Some (case doctor of
                Some d \<Rightarrow>
                  if truthy (number_of_int (doctor_appointmentPriceInCents d))
                  then js_div (number_of_int (doctor_appointmentPriceInCents d)) (Finite 100)
                  else Finite 0
              | None \<Rightarrow> Finite 0),
      availableFromWeekDay =
        (case doctor of Some d \<Rightarrow> toString (doctor_availableFromWeekDay d) | None \<Rightarrow> ''1''),
      availableToWeekDay =
        (case doctor of Some d \<Rightarrow> toString (doctor_availableToWeekDay d) | None \<Rightarrow> ''5''),
      availableFromTime =
        (case doctor of Some d \<Rightarrow> doctor_availableFromTime d | None \<Rightarrow> []),
      availableToTime =
        (case doctor of Some d \<Rightarrow> doctor_availableToTime d | None \<Rightarrow> [])\<rparr>"

text \<open>The values the effect passes to \<^verbatim>\<open>form.reset\<close>.\<close>

definition resetValues :: "doctor option \<Rightarrow> number option formValues" where
  "resetValues doctor =
     (case doctor of
        None \<Rightarrow>
          \<lparr>name = [], specialty = [], appointmentPrice = Some (Finite 0),
           availableFromWeekDay = ''1'', availableToWeekDay = ''5'',
           availableFromTime = [], availableToTime = []\<rparr>
      | Some d \<Rightarrow>
          \<lparr>name = doctor_name d, specialty = doctor_specialty d,
           appointmentPrice =
             Some (if truthy (number_of_int (doctor_appointmentPriceInCents d))
                   then js_div (number_of_int (doctor_appointmentPriceInCents d)) (Finite 100)
                   else Finite 0),
           availableFromWeekDay = toString (doctor_availableFromWeekDay d),
           availableToWeekDay = toString (doctor_availableToWeekDay d),
           availableFromTime = doctor_availableFromTime d,
           availableToTime = doctor_availableToTime d\<rparr>)"

text \<open>\<^verbatim>\<open>handleSubmit\<close>, called with validated values: the remote call it issues.\<close>

definition handleSubmit :: "doctor option \<Rightarrow> number formValues \<Rightarrow> remote_call list" where
  "handleSubmit doctor values =
     [UpsertDoctor
        \<lparr>upsert_name = name values,
         upsert_specialty = specialty values,
         upsert_appointmentPrice = appointmentPrice values,
         upsert_availableFromTime = availableFromTime values,
         upsert_availableToTime = availableToTime values,
         upsert_id = map_option doctor_id doctor,
         upsert_availableFromWeekDay = parseInt (availableFromWeekDay values),
         upsert_availableToWeekDay = parseInt (availableToWeekDay values),
         upsert_appointmentPriceInCents = js_mul (appointmentPrice values) (Finite 100)\<rparr>]"

text \<open>
  The form's \<^verbatim>\<open>onSubmit\<close>, \<^verbatim>\<open>form.handleSubmit(handleSubmit)\<close>: the resolver validates the
  form's values; with issues the field errors are set and the handler is not called,
  otherwise the handler is called with the parsed value. The result is the field errors
  and the remote calls issued.
\<close>

definition onSubmit ::
  "doctor option \<Rightarrow> number option formValues \<Rightarrow> (string \<rightharpoonup> string) \<times> remote_call list" where
  "onSubmit doctor data =
     (case formSchema data of
        Inl issues \<Rightarrow> (field_errors issues, [])
      | Inr values \<Rightarrow> (Map.empty, handleSubmit doctor values))"

text \<open>
  The component across renders: the form's values, and the dependencies
  \<^verbatim>\<open>[isOpen, form, doctor]\<close> of the effect's last run (\<^verbatim>\<open>form\<close> never changes). The effect
  runs after the first render and after every render whose dependencies differ from
  those of its last run.
\<close>

record props =
  isOpen :: bool
  doctor :: "doctor option"

record component =
  form :: "number option formValues"
  deps :: "props option"

definition useEffect :: "props \<Rightarrow> component \<Rightarrow> component" where
  "useEffect p c =
     (if deps c = Some p then c
      else \<lparr>form = (if isOpen p then resetValues (doctor p) else form c), deps = Some p\<rparr>)"

definition mount :: "props \<Rightarrow> component" where
  "mount p = useEffect p \<lparr>form = defaultValues (doctor p), deps = None\<rparr>"

definition render :: "props \<Rightarrow> component \<Rightarrow> component" where
  "render p c = useEffect p c"

text \<open>A control's \<^verbatim>\<open>field.onChange\<close>: the user edits the form's values.\<close>

definition onChange ::
  "(number option formValues \<Rightarrow> number option formValues) \<Rightarrow> component \<Rightarrow> component" where
  "onChange f c = c\<lparr>form := f (form c)\<rparr>"

section \<open>The dashboard's statistics card\<close>

text \<open>
  \<^verbatim>\<open>StatsCard\<close>: the titles and values of the four cards. \<open>None\<close> is \<^verbatim>\<open>null\<close>. The currency
  helper \<^verbatim>\<open>formatCurrencyInCents\<close> is a parameter.
\<close>

record statsCardProps =
  totalRevenue :: "number option"
  totalAppointments :: "int option"
  totalDoctors :: "int option"
  totalPatients :: "int option"

definition StatsCard :: "(number \<Rightarrow> string) \<Rightarrow> statsCardProps \<Rightarrow> (string \<times> string) list" where
  "StatsCard formatCurrencyInCents p =
     [(''Revenue'',
       case totalRevenue p of
         Some r \<Rightarrow> if truthy r then formatCurrencyInCents r else ''R$ 0,00''
       | None \<Rightarrow> ''R$ 0,00''),
      (''Appointments'', case totalAppointments p of Some n \<Rightarrow> toString n | None \<Rightarrow> ''0''),
      (''Patients'', case totalPatients p of Some n \<Rightarrow> toString n | None \<Rightarrow> ''0''),
      (''Doctors'', case totalDoctors p of Some n \<Rightarrow> toString n | None \<Rightarrow> ''0'')]"

section \<open>Sample records and form values\<close>

text \<open>A doctor whose appointment costs R$ 19,90, available Monday to Friday.\<close>

definition dr_ana :: doctor where
  "dr_ana =
     \<lparr>doctor_id = ''d-1'', doctor_name = ''Ana'', doctor_specialty = ''Cardiologia'',
      doctor_appointmentPriceInCents = 1990,
      doctor_availableFromWeekDay = 1, doctor_availableToWeekDay = 5,
      doctor_availableFromTime = ''08:00:00'', doctor_availableToTime = ''18:00:00''\<rparr>"

text \<open>The same doctor with an appointment at R$ 150,00.\<close>

definition dr_ana_150 :: doctor where
  "dr_ana_150 = dr_ana\<lparr>doctor_appointmentPriceInCents := 15000\<rparr>"

definition dr_bia :: doctor where
  "dr_bia =
     \<lparr>doctor_id = ''d-2'', doctor_name = ''Bia'', doctor_specialty = ''Pediatria'',
      doctor_appointmentPriceInCents = 20000,
      doctor_availableFromWeekDay = 2, doctor_availableToWeekDay = 6,
      doctor_availableFromTime = ''13:00:00'', doctor_availableToTime = ''19:30:00''\<rparr>"

text \<open>A form filled in correctly, and variations of it with one or two fields changed.\<close>

definition valid_form :: "number option formValues" where
  "valid_form =
     \<lparr>name = ''Ana'', specialty = ''Cardiologia'', appointmentPrice = Some (Finite 150),
      availableFromWeekDay = ''1'', availableToWeekDay = ''5'',
      availableFromTime = ''08:00:00'', availableToTime = ''18:00:00''\<rparr>"

definition late_start_form :: "number option formValues" where
  "late_start_form =
     valid_form\<lparr>availableFromTime := ''09:00:00'', availableToTime := ''08:00:00''\<rparr>"

definition cleared_price_form :: "number option formValues" where
  "cleared_price_form = late_start_form\<lparr>appointmentPrice := None\<rparr>"

definition nan_price_form :: "number option formValues" where
  "nan_price_form = late_start_form\<lparr>appointmentPrice := Some NaN\<rparr>"

definition half_price_form :: "number option formValues" where
  "half_price_form = valid_form\<lparr>appointmentPrice := Some (Finite (1 / 2))\<rparr>"

definition blank_name_form :: "number option formValues" where
  "blank_name_form = valid_form\<lparr>name := ''  ''\<rparr>"

definition blank_time_form :: "number option formValues" where
  "blank_time_form = valid_form\<lparr>availableFromTime := '' ''\<rparr>"

text \<open>
  The double nearest to 1.1, which the price control stores for the input \<^verbatim>\<open>1,10\<close>, and a
  form with that price.
\<close>

definition double_1_1 :: number where
  "double_1_1 = Finite (2476979795053773 / 2251799813685248)"

definition form_1_1 :: "number option formValues" where
  "form_1_1 = valid_form\<lparr>appointmentPrice := Some double_1_1\<rparr>"

text \<open>Statistics with no revenue, twelve appointments, seven patients and no doctor count.\<close>

definition sample_stats :: statsCardProps where
  "sample_stats =
     \<lparr>totalRevenue = Some (Finite 0), totalAppointments = Some 12,
      totalDoctors = None, totalPatients = Some 7\<rparr>"

text \<open>The issues of a validation result: none when it succeeded.\<close>

definition issues_of :: "issue list + number formValues \<Rightarrow> issue list" where
  "issues_of r = (case r of Inl issues \<Rightarrow> issues | Inr values \<Rightarrow> [])"

section \<open>Properties of the number model\<close>

subsection \<open>Rounding to a double\<close>

text \<open>The bit length of a positive integer \<open>n\<close> is the \<open>k + 1\<close> with \<open>2\<^sup>k \<le> n < 2\<^sup>k\<^sup>+\<^sup>1\<close>.\<close>

lemma bit_length_nonneg: "0 \<le> bit_length n"
  by (induction n rule: bit_length.induct) (subst bit_length.simps, simp)

lemma bit_length_pos: "0 < n \<Longrightarrow> 1 \<le> bit_length n"
  using bit_length_nonneg [of "n div 2"] by (subst bit_length.simps) simp

lemma bit_length_bounds:
  "0 < n \<Longrightarrow> 2 ^ nat (bit_length n - 1) \<le> n \<and> n < 2 ^ nat (bit_length n)"
proof (induction n rule: bit_length.induct)
  case (1 n)
  show ?case
  proof (cases "n = 1")
    case True
    then show ?thesis
      by (simp add: bit_length.simps)
  next
    case False
    with "1.prems" have half: "0 < n div 2" by simp
    with "1.IH" "1.prems"
    have ih: "2 ^ nat (bit_length (n div 2) - 1) \<le> n div 2"
      "n div 2 < 2 ^ nat (bit_length (n div 2))"
      by simp_all
    have len: "bit_length n = 1 + bit_length (n div 2)"
      using "1.prems" by (subst bit_length.simps) simp
    define k where "k = nat (bit_length (n div 2) - 1)"
    from bit_length_pos [OF half]
    have k: "nat (bit_length (n div 2) - 1) = k" "nat (bit_length (n div 2)) = Suc k"
      by (simp_all add: k_def)
    from ih have "2 ^ k \<le> n div 2" "n div 2 < 2 ^ Suc k"
      unfolding k by simp_all
    then have bounds: "2 ^ Suc k \<le> n" "n < 2 ^ Suc (Suc k)"
      by simp_all
    from bit_length_pos [OF half] len
    have "nat (bit_length n - 1) = Suc k" "nat (bit_length n) = Suc (Suc k)"
      by (simp_all add: k_def)
    with bounds show ?thesis
      by simp
  qed
qed

lemma bit_length_Suc:
  assumes "0 < n"
  obtains k where "bit_length n = int (Suc k)" and "2 ^ k \<le> n" and "n < 2 ^ Suc k"
proof -
  define k where "k = nat (bit_length n - 1)"
  from bit_length_pos [OF assms]
  have k: "nat (bit_length n - 1) = k" "nat (bit_length n) = Suc k"
    by (simp_all add: k_def)
  from bit_length_bounds [OF assms] have "2 ^ k \<le> n" "n < 2 ^ Suc k"
    unfolding k by simp_all
  moreover from bit_length_pos [OF assms] have "bit_length n = int (Suc k)"
    by (simp add: k_def)
  ultimately show thesis
    by (rule that [rotated 1])
qed

text \<open>Rounding to an integer keeps an integer and moves any value by at most one half.\<close>

lemma round_half_even_of_int: "round_half_even (of_int m) = m"
  by (simp add: round_half_even_def)

lemma round_half_even_error: "\<bar>of_int (round_half_even y) - y\<bar> \<le> 1 / 2"
proof -
  have "of_int \<lfloor>y\<rfloor> \<le> y" "y < of_int \<lfloor>y\<rfloor> + 1"
    by linarith+
  then show ?thesis
    by (auto simp add: round_half_even_def Let_def)
qed


text \<open>Every integer of magnitude below \<open>2\<^sup>5\<^sup>3\<close> is a double: converting it changes nothing.\<close>

lemma pow2_nonpos: "q \<le> 0 \<Longrightarrow> pow2 q = 1 / 2 ^ nat (- q)"
  by (simp add: pow2_def)

lemma binary_exponent_of_int: "0 < n \<Longrightarrow> binary_exponent (of_int n) = bit_length n - 1"
  by (simp add: binary_exponent_def)

lemma to_number_of_int:
  assumes "\<bar>n\<bar> < 2 ^ 53"
  shows "to_number (of_int n) = Finite (of_int n)"
proof (cases "n = 0")
  case True
  then show ?thesis by (simp add: to_number_def)
next
  case False
  then have pos: "0 < \<bar>n\<bar>" by simp
  define e where "e = bit_length \<bar>n\<bar> - 1"
  have e0: "0 \<le> e"
    using bit_length_pos [OF pos] by (simp add: e_def)
  from bit_length_bounds [OF pos] have "(2::int) ^ nat e \<le> \<bar>n\<bar>"
    by (simp add: e_def)
  with assms have "(2::int) ^ nat e < 2 ^ 53" by linarith
  then have "nat e < 53" by (rule power_less_imp_less_exp [rotated]) simp
  with e0 have e52: "e \<le> 52" by linarith
  have be: "binary_exponent \<bar>of_int n :: rat\<bar> = e"
    using binary_exponent_of_int [OF pos] by (simp add: e_def)
  define q where "q = e - 52"
  from e0 e52 have q: "max e (- 1022) - 52 = q" "q \<le> 0"
    by (simp_all add: q_def)
  have scaled: "(of_int n :: rat) / pow2 q = of_int (n * 2 ^ nat (- q))"
    using q by (simp add: pow2_nonpos)
  have restored: "(of_int (n * 2 ^ nat (- q)) :: rat) * pow2 q = of_int n"
    using q by (simp add: pow2_nonpos)
  have rounded: "of_int (round_half_even (of_int n / pow2 q)) * pow2 q = (of_int n :: rat)"
    by (simp only: scaled round_half_even_of_int restored)
  have "to_number (of_int n) =
      (let r = of_int (round_half_even (of_int n / pow2 q)) * pow2 q
       in if r = 0 then Finite 0
          else if binary_exponent \<bar>r\<bar> < 1024 then Finite r
          else if 0 < (of_int n :: rat) then PosInf else NegInf)"
    using False by (simp add: to_number_def be q Let_def)
  also have "\<dots> = Finite (of_int n)"
    unfolding Let_def rounded using False e52 by (simp add: be)
  finally show ?thesis .
qed


subsection \<open>Decimal numerals\<close>

text \<open>
  The decimal numeral of a natural number consists of digits and denotes the number, and
  \<^verbatim>\<open>parseInt\<close> reads the numeral of an integer back as that integer.
\<close>

lemma digit_value_digit_char: "d < 10 \<Longrightarrow> digit_value (digit_char d) = Some d"
  by (simp add: digit_value_def digit_char_def Let_def)

lemma is_digit_digit_char: "d < 10 \<Longrightarrow> is_digit 10 (digit_char d)"
  by (simp add: is_digit_def digit_value_digit_char)

lemma digits_all_digits: "\<forall>c \<in> set (digits n). is_digit 10 c"
proof (induction n rule: digits.induct)
  case (1 n)
  show ?case
  proof (cases "n < 10")
    case True
    then show ?thesis
      by (subst digits.simps) (simp add: is_digit_digit_char)
  next
    case False
    with "1.IH" show ?thesis
      by (subst digits.simps) (simp add: is_digit_digit_char)
  qed
qed

lemma digits_nonempty: "digits n \<noteq> []"
  by (subst digits.simps) simp

lemma digits_value_snoc:
  "digits_value R (Z @ [c]) =
     digits_value R Z * R + (case digit_value c of Some d \<Rightarrow> d | None \<Rightarrow> 0)"
  by (simp add: digits_value_def)

lemma digits_value_digits: "digits_value 10 (digits n) = n"
proof (induction n rule: digits.induct)
  case (1 n)
  show ?case
  proof (cases "n < 10")
    case True
    then show ?thesis
      by (subst digits.simps) (simp add: digits_value_def digit_value_digit_char)
  next
    case False
    with "1.IH" have "digits_value 10 (digits (n div 10)) = n div 10" by simp
    with False show ?thesis
      by (subst digits.simps) (simp add: digits_value_snoc digit_value_digit_char)
  qed
qed

lemma is_digit_10_facts:
  assumes "is_digit 10 c"
  shows "\<not> isWhiteSpace c" and "c \<noteq> CHR ''-''" and "c \<noteq> CHR ''+''"
    and "c \<noteq> CHR ''x''" and "c \<noteq> CHR ''X''"
  using assms
  by (auto simp add: is_digit_def digit_value_def isWhiteSpace_def Let_def split: if_splits)

lemma parseInt_decimal_numeral:
  assumes "\<forall>c \<in> set s. is_digit 10 c" and "s \<noteq> []"
  shows "parseInt s = number_of_int (int (digits_value 10 s))"
    and "parseInt (CHR ''-'' # s) = number_of_int (- int (digits_value 10 s))"
proof -
  obtain c s' where s: "s = c # s'"
    using assms(2) by (cases s) auto
  with assms(1) have c: "is_digit 10 c" by simp
  have no_hex: "take 2 s \<noteq> ''0x''" "take 2 s \<noteq> ''0X''"
    using assms(1) s by (cases s'; auto dest: is_digit_10_facts)+
  have all: "takeWhile (is_digit 10) s = s"
    using assms(1) by (simp add: takeWhile_eq_all_conv)
  have ws: "dropWhile isWhiteSpace s = s"
    using c s by (simp add: is_digit_10_facts)
  have sign: "take (Suc 0) s \<noteq> ''-''" "take (Suc 0) s \<noteq> ''+''"
    using c s by (auto dest: is_digit_10_facts)
  show "parseInt s = number_of_int (int (digits_value 10 s))"
    using assms(2) by (simp add: parseInt_def ws sign no_hex all Let_def)
  have minus: "\<not> isWhiteSpace CHR ''-''"
    by (simp add: isWhiteSpace_def)
  show "parseInt (CHR ''-'' # s) = number_of_int (- int (digits_value 10 s))"
    using assms(2) by (simp add: parseInt_def minus no_hex all Let_def)
qed

lemma parseInt_toString: "parseInt (toString n) = number_of_int n"
proof (cases "n < 0")
  case True
  with parseInt_decimal_numeral(2) [OF digits_all_digits digits_nonempty, of "nat (- n)"]
  show ?thesis
    by (simp add: toString_def digits_value_digits)
next
  case False
  with parseInt_decimal_numeral(1) [OF digits_all_digits digits_nonempty, of "nat n"]
  show ?thesis
    by (simp add: toString_def digits_value_digits)
qed


subsection \<open>The exponent and the rounding error\<close>

text \<open>
  \<open>binary_exponent x\<close> is the \<open>e\<close> with \<open>2\<^sup>e \<le> x < 2\<^sup>e\<^sup>+\<^sup>1\<close>, and a finite result of
  \<open>to_number\<close> is a multiple of the quantum \<open>2\<^sup>q\<close> of its argument, at most half a quantum
  away from it.
\<close>

lemma pow2_nonneg_exp: "0 \<le> e \<Longrightarrow> pow2 e = 2 ^ nat e"
  by (simp add: pow2_def)

lemma binary_exponent_bounds:
  assumes "0 < x"
  shows "pow2 (binary_exponent x) \<le> x \<and> x < pow2 (binary_exponent x + 1)"
proof (cases "1 \<le> x")
  case True
  define n where "n = \<lfloor>x\<rfloor>"
  from True have n: "0 < n" by (simp add: n_def)
  from bit_length_Suc [OF n] obtain k
    where len: "bit_length n = int (Suc k)" and "2 ^ k \<le> n" "n < 2 ^ Suc k"
    by blast
  then have "2 ^ k \<le> n" "n + 1 \<le> 2 ^ Suc k"
    by simp_all
  then have "(2::rat) ^ k \<le> of_int n" "(of_int (n + 1) :: rat) \<le> 2 ^ Suc k"
    by (simp_all del: of_int_add power_Suc)
  moreover have "of_int n \<le> x" "x < of_int (n + 1)"
    unfolding n_def by linarith+
  ultimately have "2 ^ k \<le> x" "x < 2 ^ Suc k"
    by linarith+
  moreover have "binary_exponent x = int k"
    using True len by (simp add: binary_exponent_def n_def)
  ultimately show ?thesis
    by (simp add: pow2_nonneg_exp nat_add_distrib)
next
  case False
  with assms have inv: "1 < 1 / x" by simp
  define m where "m = \<lceil>1 / x\<rceil>"
  from inv have m: "0 < m - 1"
    unfolding m_def by linarith
  from bit_length_Suc [OF m] obtain k
    where len: "bit_length (m - 1) = int (Suc k)" and "2 ^ k \<le> m - 1" "m - 1 < 2 ^ Suc k"
    by blast
  then have "2 ^ k \<le> m - 1" "m \<le> 2 ^ Suc k"
    by simp_all
  then have "(2::rat) ^ k \<le> of_int (m - 1)" "(of_int m :: rat) \<le> 2 ^ Suc k"
    by (simp_all del: of_int_diff power_Suc)
  moreover have "of_int (m - 1) < 1 / x" "1 / x \<le> of_int m"
    unfolding m_def by linarith+
  ultimately have "2 ^ k < 1 / x" "1 / x \<le> 2 ^ Suc k"
    by linarith+
  with assms have "x < 1 / 2 ^ k" "1 / 2 ^ Suc k \<le> x"
    by (simp_all add: field_simps)
  moreover have "binary_exponent x = - int (Suc k)"
    using False len by (simp add: binary_exponent_def m_def)
  moreover have "pow2 (- int (Suc k)) = 1 / 2 ^ Suc k" "pow2 (- int (Suc k) + 1) = 1 / 2 ^ k"
    by (simp_all add: pow2_def nat_add_distrib)
  ultimately show ?thesis
    by simp
qed


lemma pow2_pos: "0 < pow2 q"
  by (simp add: pow2_def)

lemma to_number_nearest:
  assumes "to_number x = Finite r" and "x \<noteq> 0"
  defines "q \<equiv> max (binary_exponent \<bar>x\<bar>) (- 1022) - 52"
  shows "(\<exists>m. r = of_int m * pow2 q) \<and> \<bar>r - x\<bar> \<le> pow2 q / 2"
proof -
  define m where "m = round_half_even (x / pow2 q)"
  have close: "\<bar>of_int m * pow2 q - x\<bar> \<le> pow2 q / 2"
  proof -
    have "\<bar>of_int m - x / pow2 q\<bar> \<le> 1 / 2"
      unfolding m_def by (rule round_half_even_error)
    then have "\<bar>of_int m - x / pow2 q\<bar> * pow2 q \<le> 1 / 2 * pow2 q"
      using pow2_pos [of q] by (simp only: mult_le_cancel_right_pos)
    moreover have "\<bar>of_int m - x / pow2 q\<bar> * pow2 q = \<bar>of_int m * pow2 q - x\<bar>"
      using pow2_pos [of q] by (simp add: abs_mult_pos [symmetric] field_simps)
    ultimately show ?thesis by simp
  qed
  from assms(1,2) have "r = of_int m * pow2 q \<or> (r = 0 \<and> of_int m * pow2 q = 0)"
    by (auto simp add: to_number_def Let_def m_def q_def split: if_splits)
  then have "r = of_int m * pow2 q" by auto
  with close show ?thesis by auto
qed

section \<open>Properties of the schema\<close>

subsection \<open>The issues of a validation\<close>

lemma string_min_one:
  "string_min p (Suc 0) msg s =
     (if s = [] then [\<lparr>code = ''too_small'', path = p, message = msg\<rparr>] else [])"
  by (cases s) (simp_all add: string_min_def)

lemma number_min_undefined:
  "number_min p n msg None =
     (None, [\<lparr>code = ''invalid_type'', path = p, message = ''Required''\<rparr>])"
  by (simp add: number_min_def)

lemma number_min_nan:
  "number_min p n msg (Some NaN) =
     (None, [\<lparr>code = ''invalid_type'', path = p,
              message = ''Expected number, received nan''\<rparr>])"
  by (simp add: number_min_def)

lemma number_min_number:
  "x \<noteq> NaN \<Longrightarrow>
   number_min p n msg (Some x) =
     (Some x, if js_lt x n then [\<lparr>code = ''too_small'', path = p, message = msg\<rparr>] else [])"
  by (cases x) (simp_all add: number_min_def)

text \<open>
  A price that is not a number aborts the object's parse: the issues are those of the
  fields, and the ordering of the times is not looked at.
\<close>

lemma formSchema_not_a_number:
  assumes "appointmentPrice data = None \<or> appointmentPrice data = Some NaN"
  shows "\<exists>i. formSchema data = Inl i \<and> i \<noteq> [] \<and> (\<forall>x \<in> set i. path x \<noteq> []) \<and>
    \<lparr>code = ''custom'', path = [''availableToTime''],
      message = ''Start time must be before end time''\<rparr> \<notin> set i"
  using assms
  by (auto simp add: formSchema_def number_min_undefined number_min_nan string_min_one)

text \<open>With a number as the price, the issues are those of the five checks and of the
  refinement, in this order.\<close>

lemma formSchema_number:
  assumes "appointmentPrice data = Some x" and "x \<noteq> NaN"
  shows "issues_of (formSchema data) =
    string_min [''name''] 1 ''Doctor name is required'' (js_trim (name data)) @
    string_min [''specialty''] 1 ''Specialty is required'' (js_trim (specialty data)) @
    (if js_lt x (Finite 1)
     then [\<lparr>code = ''too_small'', path = [''appointmentPrice''],
             message = ''Appointment price is required''\<rparr>]
     else []) @
    string_min [''availableFromTime''] 1 ''Start time is required'' (availableFromTime data) @
    string_min [''availableToTime''] 1 ''End time is required'' (availableToTime data) @
    (if js_str_lt (availableFromTime data) (availableToTime data) then []
     else [\<lparr>code = ''custom'', path = [''availableToTime''],
             message = ''Start time must be before end time''\<rparr>])"
  using assms by (simp add: formSchema_def number_min_number issues_of_def Let_def)

lemma formSchema_fails_iff:
  "(\<exists>i. formSchema data = Inl i) = (issues_of (formSchema data) \<noteq> [])"
  by (auto simp add: formSchema_def issues_of_def Let_def number_min_def
      split: option.splits number.splits prod.splits)

subsection \<open>The ordering of the two times\<close>

text \<open>
  C1, as the code has it. Whenever \<^verbatim>\<open>availableFromTime >= availableToTime\<close> (the strings
  compared), validation fails and no issue is a top-level one (every path is non-empty).
  When the price is a number, one of the issues is the refinement's, attached to
  \<^verbatim>\<open>availableToTime\<close> with the message \<^verbatim>\<open>Start time must be before end time\<close>. When the
  price is \<^verbatim>\<open>undefined\<close> or \<open>NaN\<close> nothing is claimed about that issue.
\<close>

theorem ordering_issue_on_end_time:
  assumes "\<not> js_str_lt (availableFromTime data) (availableToTime data)"
  shows "(\<exists>issues. formSchema data = Inl issues) \<and>
     (\<forall>i \<in> set (issues_of (formSchema data)). path i \<noteq> []) \<and>
     ((\<exists>x. appointmentPrice data = Some x \<and> x \<noteq> NaN) \<longrightarrow>
        \<lparr>code = ''custom'', path = [''availableToTime''],
          message = ''Start time must be before end time''\<rparr>
        \<in> set (issues_of (formSchema data)))"
proof (cases "\<exists>x. appointmentPrice data = Some x \<and> x \<noteq> NaN")
  case True
  then obtain x where x: "appointmentPrice data = Some x" "x \<noteq> NaN" by blast
  show ?thesis
    unfolding formSchema_fails_iff formSchema_number [OF x]
    using assms by (auto simp add: string_min_one)
next
  case False
  then have "appointmentPrice data = None \<or> appointmentPrice data = Some NaN"
    by (cases "appointmentPrice data") auto
  from formSchema_not_a_number [OF this] False show ?thesis
    by (auto simp add: issues_of_def)
qed

text \<open>The theorem at a form with a price of 150, starting at 09:00:00 and ending at 08:00:00.\<close>

theorem ordering_issue_on_end_time_witness:
  "\<not> js_str_lt (availableFromTime late_start_form) (availableToTime late_start_form) \<and>
   appointmentPrice late_start_form = Some (Finite 150) \<and>
   \<lparr>code = ''custom'', path = [''availableToTime''],
     message = ''Start time must be before end time''\<rparr>
   \<in> set (issues_of (formSchema late_start_form))"
proof -
  have order: "\<not> js_str_lt (availableFromTime late_start_form) (availableToTime late_start_form)"
    by (simp add: late_start_form_def valid_form_def)
  have price: "appointmentPrice late_start_form = Some (Finite 150)"
    by (simp add: late_start_form_def valid_form_def)
  from ordering_issue_on_end_time [OF order] order price show ?thesis
    by simp
qed

text \<open>
  C1 as stated fails where the price is not a number. With the price input emptied (the
  value is \<^verbatim>\<open>undefined\<close>), or with \<open>NaN\<close> as the price, and the times 09:00:00 and 08:00:00,
  the only issue is the price's: no error is attached to \<^verbatim>\<open>availableToTime\<close>.
\<close>

theorem ordering_issue_skipped_without_price:
  "\<not> js_str_lt (availableFromTime cleared_price_form) (availableToTime cleared_price_form) \<and>
   formSchema cleared_price_form =
     Inl [\<lparr>code = ''invalid_type'', path = [''appointmentPrice''], message = ''Required''\<rparr>] \<and>
   \<not> js_str_lt (availableFromTime nan_price_form) (availableToTime nan_price_form) \<and>
   formSchema nan_price_form =
     Inl [\<lparr>code = ''invalid_type'', path = [''appointmentPrice''],
           message = ''Expected number, received nan''\<rparr>]"
  by code_simp

text \<open>
  What the form shows under the end time when the times are out of order and the price
  is a number: the ordering message, unless the end time is empty, whose own message
  comes first.
\<close>

lemma end_time_field_error:
  assumes "appointmentPrice data = Some x" and "x \<noteq> NaN"
    and "\<not> js_str_lt (availableFromTime data) (availableToTime data)"
  shows "field_errors (issues_of (formSchema data)) ''availableToTime'' =
    Some (if availableToTime data = [] then ''End time is required''
          else ''Start time must be before end time'')"
  unfolding formSchema_number [OF assms(1,2)] using assms(3)
  by (simp add: string_min_one)

subsection \<open>Accepted forms\<close>

text \<open>
  C4, as the code has it. A form whose name and specialty are non-empty after trimming,
  whose two times are non-empty and in order (the start before the end), and whose price
  is a finite number of at least 1, is accepted: validation returns the values, name and
  specialty trimmed, with no issue.
\<close>

theorem valid_form_accepted:
  assumes "js_trim (name data) \<noteq> []" and "js_trim (specialty data) \<noteq> []"
    and "availableFromTime data \<noteq> []" and "availableToTime data \<noteq> []"
    and "js_str_lt (availableFromTime data) (availableToTime data)"
    and "appointmentPrice data = Some (Finite x)" and "1 \<le> x"
  shows "formSchema data =
    Inr \<lparr>name = js_trim (name data), specialty = js_trim (specialty data),
         appointmentPrice = Finite x,
         availableFromWeekDay = availableFromWeekDay data,
         availableToWeekDay = availableToWeekDay data,
         availableFromTime = availableFromTime data,
         availableToTime = availableToTime data\<rparr>"
  using assms by (simp add: formSchema_def number_min_number string_min_one)

text \<open>The theorem at a correctly filled form with a price of 150.\<close>

theorem valid_form_accepted_witness:
  "js_trim (name valid_form) \<noteq> [] \<and> js_trim (specialty valid_form) \<noteq> [] \<and>
   availableFromTime valid_form \<noteq> [] \<and> availableToTime valid_form \<noteq> [] \<and>
   js_str_lt (availableFromTime valid_form) (availableToTime valid_form) \<and>
   appointmentPrice valid_form = Some (Finite 150) \<and>
   formSchema valid_form =
     Inr \<lparr>name = ''Ana'', specialty = ''Cardiologia'', appointmentPrice = Finite 150,
          availableFromWeekDay = ''1'', availableToWeekDay = ''5'',
          availableFromTime = ''08:00:00'', availableToTime = ''18:00:00''\<rparr>"
proof -
  have hyps: "js_trim (name valid_form) \<noteq> []" "js_trim (specialty valid_form) \<noteq> []"
    "availableFromTime valid_form \<noteq> []" "availableToTime valid_form \<noteq> []"
    "js_str_lt (availableFromTime valid_form) (availableToTime valid_form)"
    "appointmentPrice valid_form = Some (Finite 150)" "(1::rat) \<le> 150"
    by (simp_all add: valid_form_def js_trim_def isWhiteSpace_def)
  have trimmed: "js_trim (name valid_form) = ''Ana''"
    "js_trim (specialty valid_form) = ''Cardiologia''"
    by (simp_all add: valid_form_def js_trim_def isWhiteSpace_def)
  from valid_form_accepted [OF hyps] hyps trimmed show ?thesis
    by (simp add: valid_form_def)
qed

text \<open>
  C4 as stated fails: a price of 0.5 is positive, and a name of two spaces is non-empty,
  yet each form is rejected, the first for its price, the second for its name.
\<close>

theorem positive_price_below_one_rejected:
  "name half_price_form \<noteq> [] \<and> specialty half_price_form \<noteq> [] \<and>
   availableFromTime half_price_form \<noteq> [] \<and> availableToTime half_price_form \<noteq> [] \<and>
   js_str_lt (availableFromTime half_price_form) (availableToTime half_price_form) \<and>
   appointmentPrice half_price_form = Some (Finite (1 / 2)) \<and>
   js_lt (Finite 0) (Finite (1 / 2)) \<and>
   formSchema half_price_form =
     Inl [\<lparr>code = ''too_small'', path = [''appointmentPrice''],
           message = ''Appointment price is required''\<rparr>] \<and>
   name blank_name_form \<noteq> [] \<and> specialty blank_name_form \<noteq> [] \<and>
   availableFromTime blank_name_form \<noteq> [] \<and> availableToTime blank_name_form \<noteq> [] \<and>
   js_str_lt (availableFromTime blank_name_form) (availableToTime blank_name_form) \<and>
   appointmentPrice blank_name_form = Some (Finite 150) \<and>
   js_lt (Finite 0) (Finite 150) \<and>
   formSchema blank_name_form =
     Inl [\<lparr>code = ''too_small'', path = [''name''], message = ''Doctor name is required''\<rparr>]"
  by code_simp

subsection \<open>Required fields\<close>

lemma formSchema_not_a_number_issues:
  assumes "appointmentPrice data = None \<or> appointmentPrice data = Some NaN"
  shows "issues_of (formSchema data) =
    string_min [''name''] 1 ''Doctor name is required'' (js_trim (name data)) @
    string_min [''specialty''] 1 ''Specialty is required'' (js_trim (specialty data)) @
    [\<lparr>code = ''invalid_type'', path = [''appointmentPrice''],
       message = (if appointmentPrice data = None then ''Required''
                  else ''Expected number, received nan'')\<rparr>] @
    string_min [''availableFromTime''] 1 ''Start time is required'' (availableFromTime data) @
    string_min [''availableToTime''] 1 ''End time is required'' (availableToTime data)"
  using assms
  by (auto simp add: formSchema_def number_min_undefined number_min_nan issues_of_def)

text \<open>
  C5, as the code has it. The required-field issue of \<^verbatim>\<open>name\<close> and of \<^verbatim>\<open>specialty\<close> is
  among the issues exactly when the value is empty after trimming; that of
  \<^verbatim>\<open>availableFromTime\<close> and of \<^verbatim>\<open>availableToTime\<close> exactly when the value is the empty
  string: the two times are not trimmed.
\<close>

theorem required_field_issues:
  "(\<lparr>code = ''too_small'', path = [''name''], message = ''Doctor name is required''\<rparr>
      \<in> set (issues_of (formSchema data))) = (js_trim (name data) = []) \<and>
   (\<lparr>code = ''too_small'', path = [''specialty''], message = ''Specialty is required''\<rparr>
      \<in> set (issues_of (formSchema data))) = (js_trim (specialty data) = []) \<and>
   (\<lparr>code = ''too_small'', path = [''availableFromTime''],
      message = ''Start time is required''\<rparr>
      \<in> set (issues_of (formSchema data))) = (availableFromTime data = []) \<and>
   (\<lparr>code = ''too_small'', path = [''availableToTime''], message = ''End time is required''\<rparr>
      \<in> set (issues_of (formSchema data))) = (availableToTime data = [])"
proof (cases "\<exists>x. appointmentPrice data = Some x \<and> x \<noteq> NaN")
  case True
  then obtain x where x: "appointmentPrice data = Some x" "x \<noteq> NaN" by blast
  show ?thesis
    unfolding formSchema_number [OF x] by (simp add: string_min_one)
next
  case False
  then have "appointmentPrice data = None \<or> appointmentPrice data = Some NaN"
    by (cases "appointmentPrice data") auto
  then show ?thesis
    unfolding formSchema_not_a_number_issues [OF \<open>appointmentPrice data = None \<or> appointmentPrice data = Some NaN\<close>]
    by (simp add: string_min_one)
qed

text \<open>
  C5 as stated fails for the times: a start time of one space is empty after trimming,
  and the form is accepted, with no issue.
\<close>

theorem blank_time_accepted:
  "js_trim (availableFromTime blank_time_form) = [] \<and>
   formSchema blank_time_form =
     Inr \<lparr>name = ''Ana'', specialty = ''Cardiologia'', appointmentPrice = Finite 150,
          availableFromWeekDay = ''1'', availableToWeekDay = ''5'',
          availableFromTime = '' '', availableToTime = ''18:00:00''\<rparr>"
  by code_simp

section \<open>Properties of the component\<close>

subsection \<open>Deleting\<close>

text \<open>
  C8. \<^verbatim>\<open>handleDeleteDoctorClick\<close> issues no remote call when there is no doctor, and
  otherwise exactly one, the delete call with that doctor's id.
\<close>

theorem delete_is_guarded:
  "handleDeleteDoctorClick None = [] \<and>
   handleDeleteDoctorClick (Some d) = [DeleteDoctor (doctor_id d)]"
  by (simp add: handleDeleteDoctorClick_def)

subsection \<open>Initial values and reset values\<close>

text \<open>
  C9. The \<^verbatim>\<open>defaultValues\<close> of \<^verbatim>\<open>useForm\<close> and the values the effect resets the form to
  are the same for every optional doctor, in all seven fields.
\<close>

theorem defaultValues_eq_resetValues:
  "defaultValues d = resetValues d \<and>
   name (defaultValues d) = name (resetValues d) \<and>
   specialty (defaultValues d) = specialty (resetValues d) \<and>
   appointmentPrice (defaultValues d) = appointmentPrice (resetValues d) \<and>
   availableFromWeekDay (defaultValues d) = availableFromWeekDay (resetValues d) \<and>
   availableToWeekDay (defaultValues d) = availableToWeekDay (resetValues d) \<and>
   availableFromTime (defaultValues d) = availableFromTime (resetValues d) \<and>
   availableToTime (defaultValues d) = availableToTime (resetValues d)"
  by (cases d) (simp_all add: defaultValues_def resetValues_def)

subsection \<open>Submitting\<close>

lemma formSchema_Inl_nonempty: "formSchema data = Inl issues \<Longrightarrow> issues \<noteq> []"
  using formSchema_fails_iff [of data] by (auto simp add: issues_of_def)

lemma field_errors_nonempty: "issues \<noteq> [] \<Longrightarrow> field_errors issues \<noteq> Map.empty"
  by (cases issues) simp_all

lemma formSchema_unordered_fails:
  assumes "\<not> js_str_lt (availableFromTime data) (availableToTime data)"
  shows "\<exists>issues. formSchema data = Inl issues"
proof (cases "\<exists>x. appointmentPrice data = Some x \<and> x \<noteq> NaN")
  case True
  then obtain x where x: "appointmentPrice data = Some x" "x \<noteq> NaN" by blast
  show ?thesis
    unfolding formSchema_fails_iff formSchema_number [OF x] using assms by simp
next
  case False
  then have "appointmentPrice data = None \<or> appointmentPrice data = Some NaN"
    by (cases "appointmentPrice data") auto
  from formSchema_not_a_number [OF this] show ?thesis
    by blast
qed

text \<open>A valid submission calls the handler with the parsed values.\<close>

lemma onSubmit_valid:
  "formSchema data = Inr values \<Longrightarrow> onSubmit doc data = (Map.empty, handleSubmit doc values)"
  by (simp add: onSubmit_def)

text \<open>
  C2. A submission whose values fail validation issues no remote call: the field errors
  are those of the issues, at least one, and the list of remote calls is empty. This is
  so in particular for every form whose times are 09:00:00 and 08:00:00.
\<close>

theorem invalid_submit_no_remote_call:
  "(\<forall>issues. formSchema data = Inl issues \<longrightarrow>
      onSubmit doc data = (field_errors issues, []) \<and> field_errors issues \<noteq> Map.empty) \<and>
   (availableFromTime data = ''09:00:00'' \<and> availableToTime data = ''08:00:00'' \<longrightarrow>
      snd (onSubmit doc data) = [] \<and> fst (onSubmit doc data) \<noteq> Map.empty)"
proof (intro conjI allI impI)
  fix issues
  assume invalid: "formSchema data = Inl issues"
  then show "onSubmit doc data = (field_errors issues, [])"
    by (simp add: onSubmit_def)
  from invalid show "field_errors issues \<noteq> Map.empty"
    by (intro field_errors_nonempty formSchema_Inl_nonempty)
next
  assume times: "availableFromTime data = ''09:00:00'' \<and> availableToTime data = ''08:00:00''"
  then have "\<not> js_str_lt (availableFromTime data) (availableToTime data)"
    by simp
  then obtain issues where invalid: "formSchema data = Inl issues"
    using formSchema_unordered_fails by blast
  then show "snd (onSubmit doc data) = []"
    by (simp add: onSubmit_def)
  from invalid have "field_errors issues \<noteq> Map.empty"
    by (intro field_errors_nonempty formSchema_Inl_nonempty)
  with invalid show "fst (onSubmit doc data) \<noteq> Map.empty"
    by (simp add: onSubmit_def)
qed

text \<open>The theorem at a new doctor's form with the times 09:00:00 and 08:00:00.\<close>

theorem invalid_submit_no_remote_call_witness:
  "availableFromTime late_start_form = ''09:00:00'' \<and>
   availableToTime late_start_form = ''08:00:00'' \<and>
   formSchema late_start_form =
     Inl [\<lparr>code = ''custom'', path = [''availableToTime''],
           message = ''Start time must be before end time''\<rparr>] \<and>
   snd (onSubmit None late_start_form) = [] \<and>
   fst (onSubmit None late_start_form) ''availableToTime'' =
     Some ''Start time must be before end time''"
proof -
  have times: "availableFromTime late_start_form = ''09:00:00'' \<and>
      availableToTime late_start_form = ''08:00:00''"
    by (simp add: late_start_form_def valid_form_def)
  have invalid: "formSchema late_start_form =
      Inl [\<lparr>code = ''custom'', path = [''availableToTime''],
            message = ''Start time must be before end time''\<rparr>]"
    by code_simp
  from invalid_submit_no_remote_call [of late_start_form None] invalid
  have "onSubmit None late_start_form =
      (field_errors [\<lparr>code = ''custom'', path = [''availableToTime''],
                       message = ''Start time must be before end time''\<rparr>], [])"
    by blast
  with times invalid show ?thesis
    by simp
qed

subsection \<open>From the stored record to the form and back\<close>

text \<open>
  The weekdays survive the way to the form and back: for every integer of magnitude
  below \<open>2\<^sup>5\<^sup>3\<close>, so for a weekday from 0 to 6, \<^verbatim>\<open>parseInt\<close> of its \<^verbatim>\<open>toString\<close> is the
  integer again.
\<close>

lemma weekday_roundtrip:
  assumes "\<bar>d\<bar> < 2 ^ 53"
  shows "parseInt (toString d) = Finite (of_int d)"
  unfolding parseInt_toString number_of_int_def by (rule to_number_of_int [OF assms])

text \<open>
  A price in whole currency units survives it too: cents that are a multiple of 100
  initialise the price field to the hundredth part, and that price times 100 is the
  cents again.
\<close>

lemma whole_units_roundtrip:
  assumes "0 \<le> k" and "100 * k < 2 ^ 53"
  shows "js_div (number_of_int (100 * k)) (Finite 100) = Finite (of_int k) \<and>
    js_mul (Finite (of_int k)) (Finite 100) = number_of_int (100 * k) \<and>
    number_of_int (100 * k) = Finite (of_int (100 * k))"
proof -
  from assms have small: "\<bar>k\<bar> < 2 ^ 53" "\<bar>100 * k\<bar> < 2 ^ 53"
    by simp_all
  have cents: "number_of_int (100 * k) = Finite (of_int (100 * k))"
    unfolding number_of_int_def by (rule to_number_of_int [OF small(2)])
  have "js_div (number_of_int (100 * k)) (Finite 100) = to_number (of_int k)"
    by (simp add: cents)
  then have price: "js_div (number_of_int (100 * k)) (Finite 100) = Finite (of_int k)"
    by (simp only: to_number_of_int [OF small(1)])
  have "js_mul (Finite (of_int k)) (Finite 100) = to_number (of_int (100 * k))"
    by (simp add: mult.commute)
  then have "js_mul (Finite (of_int k)) (Finite 100) = number_of_int (100 * k)"
    by (simp only: number_of_int_def)
  with price cents show ?thesis by simp
qed

text \<open>
  A price of 15000 cents initialises the price field to 150, and submitting the form
  unchanged sends 15000 cents.
\<close>

lemma price_150_roundtrip:
  "appointmentPrice (defaultValues (Some dr_ana_150)) = Some (Finite 150) \<and>
   map (\<lambda>c. case c of UpsertDoctor u \<Rightarrow> upsert_appointmentPriceInCents u | DeleteDoctor i \<Rightarrow> NaN)
     (snd (onSubmit (Some dr_ana_150) (defaultValues (Some dr_ana_150)))) = [Finite 15000]"
  by code_simp

text \<open>
  C3 fails on the code for the price. For a doctor stored with 1990 cents (R$ 19,90) the
  form's price is the double nearest to 19.9, the form is valid, and submitting it
  unchanged sends \<^verbatim>\<open>appointmentPriceInCents\<close> \<open>= 1990 - 2\<^sup>-\<^sup>4\<^sup>2\<close>, which JavaScript prints as
  1989.9999999999998, not the stored 1990. The weekdays 1 and 5 come back as 1 and 5.
\<close>

theorem unchanged_submit_price_drifts:
  "defaultValues (Some dr_ana) =
     \<lparr>name = ''Ana'', specialty = ''Cardiologia'',
      appointmentPrice = Some (Finite (2800676018271027 / 140737488355328)),
      availableFromWeekDay = ''1'', availableToWeekDay = ''5'',
      availableFromTime = ''08:00:00'', availableToTime = ''18:00:00''\<rparr> \<and>
   snd (onSubmit (Some dr_ana) (defaultValues (Some dr_ana))) =
     [UpsertDoctor
         \<lparr>upsert_name = ''Ana'', upsert_specialty = ''Cardiologia'',
          upsert_appointmentPrice = Finite (2800676018271027 / 140737488355328),
          upsert_availableFromTime = ''08:00:00'', upsert_availableToTime = ''18:00:00'',
          upsert_id = Some ''d-1'',
          upsert_availableFromWeekDay = Finite 1, upsert_availableToWeekDay = Finite 5,
          upsert_appointmentPriceInCents = Finite (8752112557096959 / 4398046511104)\<rparr>] \<and>
   number_of_int (doctor_appointmentPriceInCents dr_ana) = Finite 1990 \<and>
   (8752112557096959 / 4398046511104 :: rat) = 1990 - 1 / 2 ^ 42"
  by code_simp

text \<open>
  C6 fails on the code. The price 1.1 (the double nearest to it) passes validation, and
  the payload's \<^verbatim>\<open>appointmentPriceInCents\<close> is \<open>110 + 2\<^sup>-\<^sup>4\<^sup>6\<close>, which JavaScript prints as
  110.00000000000001: it is not an integer, and not the 110 that rounding 1.1 \<open>\<times>\<close> 100 gives.
\<close>

theorem cents_of_1_10_not_integral:
  "to_number (11 / 10) = double_1_1 \<and>
   formSchema form_1_1 =
     Inr \<lparr>name = ''Ana'', specialty = ''Cardiologia'', appointmentPrice = double_1_1,
          availableFromWeekDay = ''1'', availableToWeekDay = ''5'',
          availableFromTime = ''08:00:00'', availableToTime = ''18:00:00''\<rparr> \<and>
   snd (onSubmit None form_1_1) =
     [UpsertDoctor
        \<lparr>upsert_name = ''Ana'', upsert_specialty = ''Cardiologia'',
         upsert_appointmentPrice = double_1_1,
         upsert_availableFromTime = ''08:00:00'', upsert_availableToTime = ''18:00:00'',
         upsert_id = None,
         upsert_availableFromWeekDay = Finite 1, upsert_availableToWeekDay = Finite 5,
         upsert_appointmentPriceInCents = Finite (7740561859543041 / 70368744177664)\<rparr>] \<and>
   (7740561859543041 / 70368744177664 :: rat) = 110 + 1 / 2 ^ 46 \<and>
   round_half_even (2476979795053773 / 2251799813685248 * 100) = 110"
  by code_simp

subsection \<open>Opening the dialog\<close>

text \<open>
  C7. After the component mounts with the dialog open, and after every render in which
  the dialog is open while it was closed at the effect's last run, the form holds the
  reset values of the doctor now supplied: for no doctor, the fixed defaults (empty name
  and specialty, price 0, weekdays \<^verbatim>\<open>"1"\<close> and \<^verbatim>\<open>"5"\<close>, empty times); for a doctor, the
  record's name, specialty and times, its cents divided by 100 and its weekdays as
  strings. So a dialog opened
  for doctor \<open>a\<close>, edited, closed (with whatever doctor) and opened for doctor \<open>b\<close> holds
  the values of \<open>b\<close>.
\<close>

theorem open_resets_form:
  "form (mount \<lparr>isOpen = True, doctor = d\<rparr>) = resetValues d \<and>
   (deps c = Some q \<and> \<not> isOpen q \<longrightarrow>
      form (render \<lparr>isOpen = True, doctor = d\<rparr> c) = resetValues d) \<and>
   resetValues None =
     \<lparr>name = [], specialty = [], appointmentPrice = Some (Finite 0),
      availableFromWeekDay = ''1'', availableToWeekDay = ''5'',
      availableFromTime = [], availableToTime = []\<rparr> \<and>
   resetValues (Some r) =
     \<lparr>name = doctor_name r, specialty = doctor_specialty r,
      appointmentPrice =
        Some (if truthy (number_of_int (doctor_appointmentPriceInCents r))
              then js_div (number_of_int (doctor_appointmentPriceInCents r)) (Finite 100)
              else Finite 0),
      availableFromWeekDay = toString (doctor_availableFromWeekDay r),
      availableToWeekDay = toString (doctor_availableToWeekDay r),
      availableFromTime = doctor_availableFromTime r,
      availableToTime = doctor_availableToTime r\<rparr> \<and>
   form (render \<lparr>isOpen = True, doctor = Some b\<rparr>
          (render \<lparr>isOpen = False, doctor = x\<rparr>
            (onChange f (mount \<lparr>isOpen = True, doctor = Some a\<rparr>)))) =
     resetValues (Some b)"
  by (auto simp add: mount_def render_def useEffect_def onChange_def resetValues_def)

text \<open>
  The theorem at a dialog opened for \<open>dr_ana\<close>, closed, and opened for \<open>dr_bia\<close>: the
  form holds the values of \<open>dr_bia\<close>.
\<close>

theorem open_resets_form_witness:
  "deps (render \<lparr>isOpen = False, doctor = Some dr_ana\<rparr>
          (mount \<lparr>isOpen = True, doctor = Some dr_ana\<rparr>)) =
     Some \<lparr>isOpen = False, doctor = Some dr_ana\<rparr> \<and>
   \<not> isOpen \<lparr>isOpen = False, doctor = Some dr_ana\<rparr> \<and>
   form (render \<lparr>isOpen = True, doctor = Some dr_bia\<rparr>
          (render \<lparr>isOpen = False, doctor = Some dr_ana\<rparr>
            (mount \<lparr>isOpen = True, doctor = Some dr_ana\<rparr>))) =
     \<lparr>name = ''Bia'', specialty = ''Pediatria'', appointmentPrice = Some (Finite 200),
      availableFromWeekDay = ''2'', availableToWeekDay = ''6'',
      availableFromTime = ''13:00:00'', availableToTime = ''19:30:00''\<rparr>"
proof -
  have closed:
    "deps (render \<lparr>isOpen = False, doctor = Some dr_ana\<rparr>
            (mount \<lparr>isOpen = True, doctor = Some dr_ana\<rparr>)) =
       Some \<lparr>isOpen = False, doctor = Some dr_ana\<rparr> \<and>
     \<not> isOpen \<lparr>isOpen = False, doctor = Some dr_ana\<rparr>"
    by (simp add: render_def mount_def useEffect_def)
  have bia:
    "resetValues (Some dr_bia) =
       \<lparr>name = ''Bia'', specialty = ''Pediatria'', appointmentPrice = Some (Finite 200),
        availableFromWeekDay = ''2'', availableToWeekDay = ''6'',
        availableFromTime = ''13:00:00'', availableToTime = ''19:30:00''\<rparr>"
    by code_simp
  from closed bia
    open_resets_form
      [where c = "render \<lparr>isOpen = False, doctor = Some dr_ana\<rparr>
                    (mount \<lparr>isOpen = True, doctor = Some dr_ana\<rparr>)"
         and q = "\<lparr>isOpen = False, doctor = Some dr_ana\<rparr>" and d = "Some dr_bia"]
  show ?thesis
    by simp
qed

section \<open>Properties of the statistics card\<close>

text \<open>
  C10. When \<^verbatim>\<open>totalRevenue\<close> is \<^verbatim>\<open>null\<close> or 0, the revenue card shows the literal
  \<^verbatim>\<open>R$ 0,00\<close>, whatever the currency formatter is. When a count is \<^verbatim>\<open>null\<close> its card shows
  \<^verbatim>\<open>0\<close>, and otherwise the decimal string of the count.
\<close>

theorem stats_card_values:
  "((totalRevenue p = None \<or> totalRevenue p = Some (Finite 0)) \<longrightarrow>
      map_of (StatsCard fmt p) ''Revenue'' = Some ''R$ 0,00'') \<and>
   (totalAppointments p = None \<longrightarrow> map_of (StatsCard fmt p) ''Appointments'' = Some ''0'') \<and>
   (totalPatients p = None \<longrightarrow> map_of (StatsCard fmt p) ''Patients'' = Some ''0'') \<and>
   (totalDoctors p = None \<longrightarrow> map_of (StatsCard fmt p) ''Doctors'' = Some ''0'') \<and>
   (\<forall>n. totalAppointments p = Some n \<longrightarrow>
      map_of (StatsCard fmt p) ''Appointments'' = Some (toString n)) \<and>
   (\<forall>n. totalPatients p = Some n \<longrightarrow>
      map_of (StatsCard fmt p) ''Patients'' = Some (toString n)) \<and>
   (\<forall>n. totalDoctors p = Some n \<longrightarrow>
      map_of (StatsCard fmt p) ''Doctors'' = Some (toString n))"
  by (auto simp add: StatsCard_def truthy_def)

text \<open>The theorem at statistics with a revenue of 0, counts of 12 and 7 and one of \<^verbatim>\<open>null\<close>.\<close>

theorem stats_card_values_witness:
  "totalRevenue sample_stats = Some (Finite 0) \<and>
   totalAppointments sample_stats = Some 12 \<and>
   totalPatients sample_stats = Some 7 \<and>
   totalDoctors sample_stats = None \<and>
   map_of (StatsCard (\<lambda>r. ''formatted'') sample_stats) ''Revenue'' = Some ''R$ 0,00'' \<and>
   map_of (StatsCard (\<lambda>r. ''formatted'') sample_stats) ''Appointments'' = Some ''12'' \<and>
   map_of (StatsCard (\<lambda>r. ''formatted'') sample_stats) ''Patients'' = Some ''7'' \<and>
   map_of (StatsCard (\<lambda>r. ''formatted'') sample_stats) ''Doctors'' = Some ''0''"
proof -
  have props: "totalRevenue sample_stats = Some (Finite 0)"
    "totalAppointments sample_stats = Some 12" "totalPatients sample_stats = Some 7"
    "totalDoctors sample_stats = None"
    by (simp_all add: sample_stats_def)
  have strings: "toString 12 = ''12''" "toString 7 = ''7''"
    by code_simp+
  from stats_card_values [of sample_stats "\<lambda>r. ''formatted''"] props strings
  show ?thesis
    by simp
qed

end
